theory Spec2Isabelle
  imports Main "HOL-Library.Sublist"
begin

section \<open>Text primitives of the host language\<close>

text \<open>
  The program handles text with Python's \<open>str\<close> methods. A character is modelled by
  HOL's 8-bit \<open>char\<close>, read as a code point below 256 (the Latin-1 range); on that
  range the functions below are Python's \<open>str.isspace\<close>, \<open>str.lower\<close>,
  \<open>str.strip\<close>, the \<open>in\<close> operator on strings, \<open>str.split(sep, 1)\<close> and
  \<open>str.splitlines\<close>.
\<close>

definition isspace :: "char \<Rightarrow> bool" where
  "isspace c =
     (let n = (of_char c :: nat)
      in (9 \<le> n \<and> n \<le> 13) \<or> (28 \<le> n \<and> n \<le> 32) \<or> n = 133 \<or> n = 160)"

definition lower_char :: "char \<Rightarrow> char" where
  "lower_char c =
     (let n = (of_char c :: nat)
      in if (65 \<le> n \<and> n \<le> 90) \<or> (192 \<le> n \<and> n \<le> 222 \<and> n \<noteq> 215)
         then char_of (n + 32) else c)"

definition lower :: "string \<Rightarrow> string" where
  "lower s = map lower_char s"

definition strip :: "string \<Rightarrow> string" where
  "strip s = rev (dropWhile isspace (rev (dropWhile isspace s)))"

fun startswith :: "string \<Rightarrow> string \<Rightarrow> bool" where
  "startswith s [] = True"
| "startswith [] (p # ps) = False"
| "startswith (c # cs) (p # ps) = (c = p \<and> startswith cs ps)"

text \<open>\<open>contains w s\<close> is Python's \<open>w in s\<close>, and \<open>s.find(w) != -1\<close>.\<close>

fun contains :: "string \<Rightarrow> string \<Rightarrow> bool" where
  "contains w [] = (w = [])"
| "contains w (c # cs) = (startswith (c # cs) w \<or> contains w cs)"

text \<open>\<open>split1 sep s\<close> is \<open>s.split(sep, 1)\<close> for a one-character separator.\<close>

definition split1 :: "char \<Rightarrow> string \<Rightarrow> string list" where
  "split1 sep s =
     (case dropWhile (\<lambda>c. c \<noteq> sep) s of
        [] \<Rightarrow> [s]
      | _ # rest \<Rightarrow> [takeWhile (\<lambda>c. c \<noteq> sep) s, rest])"

definition is_linebreak :: "char \<Rightarrow> bool" where
  "is_linebreak c =
     (let n = (of_char c :: nat)
      in (10 \<le> n \<and> n \<le> 13) \<or> (28 \<le> n \<and> n \<le> 30) \<or> n = 133)"

text \<open>
  \<open>str.splitlines()\<close>: the lines of a text without their line ends; a carriage return
  followed by a line feed is one line end; no empty last line after a final line end.
\<close>

function splitlines :: "string \<Rightarrow> string list" where
  "splitlines [] = []"
| "splitlines (c # cs) =
     (let line = takeWhile (\<lambda>x. \<not> is_linebreak x) (c # cs)
      in case dropWhile (\<lambda>x. \<not> is_linebreak x) (c # cs) of
           [] \<Rightarrow> [line]
         | b # rest \<Rightarrow>
             line # splitlines (if b = CHR 0x0D \<and> startswith rest [CHR 0x0A]
                                then tl rest else rest))"
  by pat_completeness auto
termination
proof (relation "measure length", goal_cases)
  case 1
  show ?case by simp
next
  case (2 c cs line b rest)
  have "length (dropWhile (\<lambda>x. \<not> is_linebreak x) (c # cs)) \<le> length (c # cs)"
    by (rule length_dropWhile_le)
  with 2 have "length rest < length (c # cs)" by simp
  moreover have "length (tl rest) \<le> length rest" by simp
  ultimately show ?case by auto
qed

section \<open>Result interpreter\<close>

record disease_info =
  plant_type :: string
  disease_name :: string
  severity_level :: string
  confidence :: string

text \<open>
  The module sets the flag \<open>gemini_ready\<close> once, when it is loaded: true when the API
  key is not empty, the SDK was imported and the client was built. The functions that
  read the flag take it as their first argument.
\<close>

definition get_disease_info :: "bool \<Rightarrow> string \<Rightarrow> disease_info" where
  "get_disease_info gemini_ready disease_classification =
     (if contains '':'' disease_classification then
        (let parts = split1 (CHR '':'') disease_classification;
             plant = strip (parts ! 0);
             disease = strip (parts ! 1);
             severity =
               (if lower disease = ''healthy'' then ''Healthy''
                else if list_ex (\<lambda>word. contains word (lower disease))
                          [''blight'', ''rot'', ''wilt'', ''canker''] then ''High''
                else if list_ex (\<lambda>word. contains word (lower disease))
                          [''spot'', ''rust'', ''mildew''] then ''Medium''
                else ''Low to Medium'')
         in \<lparr>plant_type = plant, disease_name = disease, severity_level = severity,
             confidence = (if gemini_ready then ''High'' else ''Low'')\<rparr>)
      else
        \<lparr>plant_type = ''Unknown'', disease_name = disease_classification,
         severity_level = ''Unknown'', confidence = ''Low''\<rparr>)"

section \<open>Recommendation generator\<close>

text \<open>
  The advice lists are string literals of the source. Their text outside ASCII (a
  pictograph before each sentence) is written as the UTF-8 bytes that the source file
  holds; the program never inspects these strings.
\<close>

definition healthy_advice :: "string list" where
  "healthy_advice =
    [[CHR 0xEF, CHR 0xA3, CHR 0xBF, CHR 0xC3, CHR 0xBC, CHR 0xC3, CHR 0xA5, CHR 0xC3, CHR 0xB8] @ '' Great! Your plant appears to be healthy.'',
     [CHR 0xEF, CHR 0xA3, CHR 0xBF, CHR 0xC3, CHR 0xBC, CHR 0xC3, CHR 0xAD, CHR 0xC3, CHR 0x9F] @ '' Continue regular watering and maintenance schedule.'',
     [CHR 0xE2, CHR 0x80, CHR 0x9A, CHR 0xC3, CHR 0xB2, CHR 0xC3, CHR 0x84, CHR 0xC3, CHR 0x94, CHR 0xE2, CHR 0x88, CHR 0x8F, CHR 0xC3, CHR 0xA8] @ '' Ensure adequate sunlight and proper ventilation.'',
     [CHR 0xEF, CHR 0xA3, CHR 0xBF, CHR 0xC3, CHR 0xBC, CHR 0xC3, CHR 0xAE, CHR 0xC3, CHR 0xA7] @ '' Monitor regularly for any changes in appearance.'']"

definition blight_advice :: "string list" where
  "blight_advice =
    [[CHR 0xEF, CHR 0xA3, CHR 0xBF, CHR 0xC3, CHR 0xBC, CHR 0xC3, CHR 0xB6, CHR 0xC2, CHR 0xAE] @ '' Immediate action required - this is a serious fungal disease.'',
     [CHR 0xE2, CHR 0x80, CHR 0x9A, CHR 0xC3, CHR 0xBA, CHR 0xC3, CHR 0x87, CHR 0xC3, CHR 0x94, CHR 0xE2, CHR 0x88, CHR 0x8F, CHR 0xC3, CHR 0xA8] @ '' Remove and destroy affected plant parts immediately.'',
     [CHR 0xEF, CHR 0xA3, CHR 0xBF, CHR 0xC3, CHR 0xBC, CHR 0xC3, CHR 0xAD, CHR 0xC3, CHR 0xA4] @ '' Apply appropriate fungicide treatment.'',
     [CHR 0xEF, CHR 0xA3, CHR 0xBF, CHR 0xC3, CHR 0xBC, CHR 0xC3, CHR 0xA5, CHR 0xC2, CHR 0xA8, CHR 0xC3, CHR 0x94, CHR 0xE2, CHR 0x88, CHR 0x8F, CHR 0xC3, CHR 0xA8] @ '' Improve air circulation around the plant.'',
     [CHR 0xEF, CHR 0xA3, CHR 0xBF, CHR 0xC3, CHR 0xBC, CHR 0xC3, CHR 0xAD, CHR 0xC3, CHR 0x9F] @ '' Avoid overhead watering to reduce humidity.'']"

definition spot_rust_advice :: "string list" where
  "spot_rust_advice =
    [[CHR 0xEF, CHR 0xA3, CHR 0xBF, CHR 0xC3, CHR 0xBC, CHR 0xC3, CHR 0xAE, CHR 0xC3, CHR 0xA7] @ '' Monitor the affected areas closely.'',
     [CHR 0xE2, CHR 0x80, CHR 0x9A, CHR 0xC3, CHR 0xBA, CHR 0xC3, CHR 0x87, CHR 0xC3, CHR 0x94, CHR 0xE2, CHR 0x88, CHR 0x8F, CHR 0xC3, CHR 0xA8] @ '' Remove affected leaves to prevent spread.'',
     [CHR 0xEF, CHR 0xA3, CHR 0xBF, CHR 0xC3, CHR 0xBC, CHR 0xC3, CHR 0xAD, CHR 0xC3, CHR 0xA4] @ '' Consider applying fungicide if spreading continues.'',
     [CHR 0xEF, CHR 0xA3, CHR 0xBF, CHR 0xC3, CHR 0xBC, CHR 0xC3, CHR 0xAD, CHR 0xC3, CHR 0x9F] @ '' Water at soil level to avoid wet leaves.'',
     [CHR 0xEF, CHR 0xA3, CHR 0xBF, CHR 0xC3, CHR 0xBC, CHR 0xC3, CHR 0xA5, CHR 0xC2, CHR 0xB1] @ '' Ensure proper plant spacing for air circulation.'']"

definition wilt_advice :: "string list" where
  "wilt_advice =
    [[CHR 0xEF, CHR 0xA3, CHR 0xBF, CHR 0xC3, CHR 0xBC, CHR 0xC3, CHR 0xAD, CHR 0xC3, CHR 0x9F] @ '' Check soil moisture - may indicate watering issues.'',
     [CHR 0xEF, CHR 0xA3, CHR 0xBF, CHR 0xC3, CHR 0xBC, CHR 0xC3, CHR 0xA5, CHR 0xC2, CHR 0xB0, CHR 0xC3, CHR 0x94, CHR 0xE2, CHR 0x88, CHR 0x8F, CHR 0xC3, CHR 0xA8] @ '' Ensure proper temperature conditions.'',
     [CHR 0xEF, CHR 0xA3, CHR 0xBF, CHR 0xC3, CHR 0xBC, CHR 0xC2, CHR 0xB6, CHR 0xE2, CHR 0x80, CHR 0xA0] @ '' May require bacterial or fungal treatment.'',
     [CHR 0xE2, CHR 0x80, CHR 0x9A, CHR 0xC3, CHR 0xBA, CHR 0xC3, CHR 0x87, CHR 0xC3, CHR 0x94, CHR 0xE2, CHR 0x88, CHR 0x8F, CHR 0xC3, CHR 0xA8] @ '' Remove severely affected parts.'',
     [CHR 0xEF, CHR 0xA3, CHR 0xBF, CHR 0xC3, CHR 0xBC, CHR 0xC3, CHR 0xA8, CHR 0xE2, CHR 0x80, CHR 0xA2] @ '' Quarantine from other plants if infectious.'']"

definition fallback_advice :: "string list" where
  "fallback_advice =
    [[CHR 0xEF, CHR 0xA3, CHR 0xBF, CHR 0xC3, CHR 0xBC, CHR 0xC3, CHR 0xAE, CHR 0xC3, CHR 0xA7] @ '' Continue monitoring the plant'' @ [CHR 0x27] @ ''s condition.'',
     [CHR 0xEF, CHR 0xA3, CHR 0xBF, CHR 0xC3, CHR 0xBC, CHR 0xC3, CHR 0xAC, CHR 0xC3, CHR 0xB6] @ '' Research specific treatment for this condition.'',
     [CHR 0xEF, CHR 0xA3, CHR 0xBF, CHR 0xC3, CHR 0xBC, CHR 0xC3, CHR 0xA5, CHR 0xC2, CHR 0xB1] @ '' Maintain good plant hygiene practices.'',
     [CHR 0xEF, CHR 0xA3, CHR 0xBF, CHR 0xC3, CHR 0xBC, CHR 0xC3, CHR 0xAD, CHR 0xC3, CHR 0x9F] @ '' Ensure proper watering schedule.'',
     [CHR 0xEF, CHR 0xA3, CHR 0xBF, CHR 0xC3, CHR 0xBC, CHR 0xC3, CHR 0xA5, CHR 0xC3, CHR 0xBB] @ '' Check if plant is getting adequate light.'',
     [CHR 0xEF, CHR 0xA3, CHR 0xBF, CHR 0xC3, CHR 0xBC, CHR 0xC3, CHR 0xA8, CHR 0xE2, CHR 0x80, CHR 0xA2] @ '' Consult with local agricultural extension service if symptoms persist.'']"

text \<open>
  \<open>get_recommendations\<close> also lower-cases the plant type and the severity level, and
  uses neither.
\<close>

definition get_recommendations :: "disease_info \<Rightarrow> string list" where
  "get_recommendations info =
     (let name = lower (disease_name info)
      in if name = ''healthy'' then healthy_advice
         else if contains ''blight'' name then blight_advice
         else if contains ''spot'' name \<or> contains ''rust'' name then spot_rust_advice
         else if contains ''wilt'' name then wilt_advice
         else fallback_advice)"

section \<open>External collaborators\<close>

text \<open>
  What the file system, the imaging libraries and the external model answer is not
  decided by the program. A \<open>world\<close> fixes these answers for one request; a call that
  raises an exception answers \<open>Raises\<close> with the exception's message.
\<close>

datatype 'a outcome = Raises string | Returns 'a

record world =
  uuid4 :: string
  file_save :: "string \<Rightarrow> unit outcome"
  path_exists :: "string \<Rightarrow> bool"
  image_open :: "string \<Rightarrow> unit outcome"
  generate_content :: "string \<Rightarrow> string option outcome"
  import_cv2 :: "unit outcome"
  imread :: "string \<Rightarrow> (nat \<times> nat) option outcome"
  draw_label :: "string \<Rightarrow> unit outcome"
  imwrite :: "string \<Rightarrow> bool outcome"

text \<open>
  \<^item> \<open>image_open p\<close> is \<open>Image.open(p).convert("RGB")\<close>;
  \<^item> \<open>generate_content p\<close> is the call of the external model on the prompt and the image
    of \<open>p\<close>, answering \<open>response.text\<close>, which is \<open>None\<close> for a reply without text;
  \<^item> \<open>imread p\<close> answers \<open>None\<close> or the height and width of the image read;
  \<^item> \<open>draw_label t\<close> stands for the four drawing calls \<open>rectangle\<close>, \<open>getTextSize\<close>,
    \<open>rectangle\<close>, \<open>putText\<close> with the label \<open>t\<close>;
  \<^item> \<open>imwrite p\<close> writes the annotated copy and answers whether it was written; a
    write that fails may raise or answer \<open>False\<close>.
\<close>

section \<open>Classifier client\<close>

datatype call = ImageOpen string | GenerateContent string

text \<open>
  The result of \<open>classify_with_gemini\<close> comes with the external calls made, in order.
  Inside the \<open>try\<close> block, \<open>response.text.strip()\<close> raises on \<open>None\<close> and
  \<open>text.splitlines()[0]\<close> raises on a text without lines; the handler turns every
  exception into \<open>"unknown"\<close>.
\<close>

definition classify_with_gemini :: "bool \<Rightarrow> world \<Rightarrow> string \<Rightarrow> string \<times> call list" where
  "classify_with_gemini gemini_ready w image_path =
     (if \<not> gemini_ready then (''unknown'', [])
      else
        case image_open w image_path of
          Raises e \<Rightarrow> (''unknown'', [ImageOpen image_path])
        | Returns _ \<Rightarrow>
            (let calls = [ImageOpen image_path, GenerateContent image_path]
             in case generate_content w image_path of
                  Raises e \<Rightarrow> (''unknown'', calls)
                | Returns None \<Rightarrow> (''unknown'', calls)
                | Returns (Some response_text) \<Rightarrow>
                    (case splitlines (strip response_text) of
                       [] \<Rightarrow> (''unknown'', calls)
                     | line # _ \<Rightarrow> (line, calls))))"

section \<open>HTTP surface\<close>

datatype json =
  JNull | JStr string | JNum int | JList "json list" | JObj "(string \<times> json) list"

fun dict_get :: "json \<Rightarrow> string \<Rightarrow> json option" where
  "dict_get (JObj kvs) k = map_of kvs k"
| "dict_get _ k = None"

record upload =
  filename :: string
  content_type :: string

text \<open>
  A request: the uploaded files by form field, the query parameters, and the headers by
  name (as the framework finds them, whatever the letter case the client wrote).
\<close>

record request =
  files :: "string \<rightharpoonup> upload"
  args :: "string \<rightharpoonup> string"
  headers :: "string \<rightharpoonup> string"

text \<open>
  The two HTML fragments of the route are templates; a fragment is modelled by the
  template and the values put into its holes, the last being the response document that
  the fragment embeds through \<open>json.dumps\<close>.
\<close>

record result_card =
  card_header_class :: string
  card_title :: string
  card_plant_type :: string
  card_condition :: string
  card_severity_class :: string
  card_severity :: string
  card_confidence :: string
  card_image_src :: "string option"
  card_recommendations :: string
  card_json :: json

datatype html = NoPlantCard string json | ResultCard result_card

datatype body = JsonBody json | HtmlBody html

type_synonym response = "nat \<times> body"

definition UPLOAD_FOLDER :: string where
  "UPLOAD_FOLDER = ''uploads''"

text \<open>\<open>os.path.splitext(p)[1]\<close> and \<open>os.path.join(a, b)\<close>, on a POSIX system.\<close>

definition splitext_ext :: "string \<Rightarrow> string" where
  "splitext_ext p =
     (let base = rev (takeWhile (\<lambda>c. c \<noteq> CHR ''/'') (rev p));
          upto_dot = dropWhile (\<lambda>c. c \<noteq> CHR ''.'') (rev base)
      in if upto_dot \<noteq> [] \<and> list_ex (\<lambda>c. c \<noteq> CHR ''.'') (tl upto_dot)
         then CHR ''.'' # rev (takeWhile (\<lambda>c. c \<noteq> CHR ''.'') (rev base))
         else [])"

definition path_join :: "string \<Rightarrow> string \<Rightarrow> string" where
  "path_join a b =
     (if startswith b ''/'' then b
      else if a = [] \<or> last a = CHR ''/'' then a @ b
      else a @ ''/'' @ b)"

fun join :: "string \<Rightarrow> string list \<Rightarrow> string" where
  "join sep [] = []"
| "join sep [x] = x"
| "join sep (x # y # ys) = x @ sep @ join sep (y # ys)"

text \<open>The truth value of an uploaded file object is that of its file name.\<close>

definition file_truthy :: "upload \<Rightarrow> bool" where
  "file_truthy file = (filename file \<noteq> [])"

definition unique_filename :: "world \<Rightarrow> upload \<Rightarrow> string" where
  "unique_filename w file =
     (let ext = splitext_ext (filename file);
          file_extension = (if ext = [] then ''.jpg'' else ext)
      in uuid4 w @ file_extension)"

definition filepath :: "world \<Rightarrow> upload \<Rightarrow> string" where
  "filepath w file = path_join UPLOAD_FOLDER (unique_filename w file)"

text \<open>The content preference of a request, as the no-plant branch of the route reads it.\<close>

definition wants_json :: "request \<Rightarrow> bool" where
  "wants_json req =
     (args req ''format'' = Some ''json'' \<or>
      contains ''application/json''
        (lower (case headers req ''Accept'' of None \<Rightarrow> [] | Some v \<Rightarrow> v)))"

definition info_json :: "disease_info \<Rightarrow> json" where
  "info_json info =
     JObj [(''plant_type'', JStr (plant_type info)),
           (''disease_name'', JStr (disease_name info)),
           (''severity_level'', JStr (severity_level info)),
           (''confidence'', JStr (confidence info))]"

text \<open>
  The \<open>try\<close> block of the route that annotates the image (bounding box and label),
  with the values it leaves in \<open>annotated_image_path\<close> and \<open>detections\<close>. The box
  coordinates are the floats of the integers given here. The block tests what
  \<open>imread\<close> answers and raises on \<open>None\<close>; it calls \<open>imwrite\<close> as a statement, so
  the answer of \<open>imwrite\<close> is not looked at.
\<close>

definition annotate :: "world \<Rightarrow> string \<Rightarrow> string \<Rightarrow> string \<Rightarrow> string option \<times> json list" where
  "annotate w path unique_name label =
     (case import_cv2 w of
        Raises e \<Rightarrow> (None, [])
      | Returns _ \<Rightarrow>
         (case imread w path of
            Raises e \<Rightarrow> (None, [])
          | Returns None \<Rightarrow> (None, [])
          | Returns (Some (h, wd)) \<Rightarrow>
             (let x1 = 20; y1 = 20; x2 = int wd - 20; y2 = int h - 20
              in case draw_label w label of
                   Raises e \<Rightarrow> (None, [])
                 | Returns _ \<Rightarrow>
                    (let output_name = ''result_'' @ unique_name;
                         output_path = path_join UPLOAD_FOLDER output_name
                     in case imwrite w output_path of
                          Raises e \<Rightarrow> (None, [])
                        | Returns _ \<Rightarrow>
                           (Some (''/uploads/'' @ output_name),
                            [JObj [(''bbox_xyxy'', JList [JNum x1, JNum y1, JNum x2, JNum y2]),
                                   (''disease'', JStr label)]])))))"

definition no_plant_json :: "string \<Rightarrow> disease_info \<Rightarrow> json" where
  "no_plant_json label info =
     JObj [(''status'', JStr ''no_plant_detected''),
           (''message'', JStr label),
           (''detection'', JList []),
           (''annotated_image'', JNull),
           (''analysis'', info_json info)]"

definition success_json :: "string \<Rightarrow> json list \<Rightarrow> string option \<Rightarrow> disease_info \<Rightarrow> json" where
  "success_json label detections annotated_image_path info =
     JObj [(''status'', JStr ''success''),
           (''disease'', JStr label),
           (''detection'', JList detections),
           (''annotated_image'',
              (case annotated_image_path of None \<Rightarrow> JNull | Some p \<Rightarrow> JStr p)),
           (''analysis'', info_json info),
           (''recommendations'', JList (map JStr (get_recommendations info)))]"

text \<open>The pair \<open>(severity_class, header_class)\<close> that styles the result card.\<close>

definition severity_classes :: "disease_info \<Rightarrow> string \<times> string" where
  "severity_classes info =
     (if severity_level info = ''Healthy'' then (''severity-healthy'', [])
      else if severity_level info = ''High'' then (''severity-high'', ''warning'')
      else if severity_level info = ''Medium'' then (''severity-medium'', ''warning'')
      else (''severity-low'', []))"

definition internal_error :: "string \<Rightarrow> response" where
  "internal_error e =
     (500, JsonBody (JObj [(''error'', JStr ''Internal server error''), (''detail'', JStr e)]))"

text \<open>
  The route \<open>POST /analyze\<close>. A response is the status code and the body. The only call
  outside an inner handler that can raise is \<open>file.save\<close>; the outer handler answers it
  with \<open>internal_error\<close>.
\<close>

definition analyze :: "bool \<Rightarrow> world \<Rightarrow> request \<Rightarrow> response" where
  "analyze gemini_ready w req =
     (case files req ''file'' of
        None \<Rightarrow> (400, JsonBody (JObj [(''error'', JStr ''No file uploaded'')]))
      | Some file \<Rightarrow>
         if \<not> file_truthy file \<or> filename file = [] then
           (400, JsonBody (JObj [(''error'', JStr ''Empty filename or no file selected'')]))
         else
           (case file_save w (filepath w file) of
              Raises e \<Rightarrow> internal_error e
            | Returns _ \<Rightarrow>
               if \<not> path_exists w (filepath w file) then
                 (500, JsonBody (JObj [(''error'', JStr ''Failed to save uploaded file'')]))
               else
                 (let result = fst (classify_with_gemini gemini_ready w (filepath w file));
                      label = (if result = [] then ''unknown'' else result);
                      info = get_disease_info gemini_ready label
                  in if contains ''no plant'' (lower label) \<or>
                        contains ''cannot provide a diagnosis'' (lower label)
                     then
                       (let response_json = no_plant_json label info
                        in if wants_json req then (200, JsonBody response_json)
                           else (200, HtmlBody (NoPlantCard label response_json)))
                     else
                       (let (annotated_image_path, detections) =
                              annotate w (filepath w file) (unique_filename w file) label;
                            response_json =
                              success_json label detections annotated_image_path info;
                            (severity_class, header_class) = severity_classes info
                        in (200, HtmlBody (ResultCard
                              \<lparr>card_header_class = header_class,
                               card_title = label,
                               card_plant_type = plant_type info,
                               card_condition = disease_name info,
                               card_severity_class = severity_class,
                               card_severity = severity_level info,
                               card_confidence = confidence info,
                               card_image_src =
                                 (case annotated_image_path of
                                    None \<Rightarrow> None
                                  | Some p \<Rightarrow> if p = [] then None else Some p),
                               card_recommendations =
                                 join ''<br>'' (get_recommendations info),
                               card_json = response_json\<rparr>))))))"

text \<open>The response document that a body carries.\<close>

fun document :: "body \<Rightarrow> json" where
  "document (JsonBody j) = j"
| "document (HtmlBody (NoPlantCard m j)) = j"
| "document (HtmlBody (ResultCard c)) = card_json c"

fun is_json_body :: "body \<Rightarrow> bool" where
  "is_json_body (JsonBody j) = True"
| "is_json_body (HtmlBody h) = False"

section \<open>Sample requests and worlds\<close>

text \<open>
  Concrete inputs at which the theorems below are instantiated: an upload of
  \<open>leaf.jpg\<close>, sent once with no content preference and once asking for JSON both
  ways, and a world in which every external call succeeds and the model replies with
  a given text; variants of it in which the image cannot be read back, the annotated
  copy cannot be written, or the model cannot be reached.
\<close>

definition sample_upload :: upload where
  "sample_upload = \<lparr>filename = ''leaf.jpg'', content_type = ''image/jpeg''\<rparr>"

definition html_request :: request where
  "html_request =
     \<lparr>files = [''file'' \<mapsto> sample_upload], args = Map.empty, headers = Map.empty\<rparr>"

definition json_request :: request where
  "json_request =
     \<lparr>files = [''file'' \<mapsto> sample_upload],
      args = [''format'' \<mapsto> ''json''],
      headers = [''Accept'' \<mapsto> ''application/json'']\<rparr>"

definition no_file_request :: request where
  "no_file_request = \<lparr>files = Map.empty, args = Map.empty, headers = Map.empty\<rparr>"

definition empty_name_request :: request where
  "empty_name_request =
     \<lparr>files = [''file'' \<mapsto> \<lparr>filename = [], content_type = ''application/octet-stream''\<rparr>],
      args = Map.empty, headers = Map.empty\<rparr>"

definition sample_world :: "string \<Rightarrow> world" where
  "sample_world reply =
     \<lparr>uuid4 = ''0f8fad5b-d9cb-469f-a165-70867728950e'',
      file_save = (\<lambda>p. Returns ()),
      path_exists = (\<lambda>p. True),
      image_open = (\<lambda>p. Returns ()),
      generate_content = (\<lambda>p. Returns (Some reply)),
      import_cv2 = Returns (),
      imread = (\<lambda>p. Returns (Some (480, 640))),
      draw_label = (\<lambda>t. Returns ()),
      imwrite = (\<lambda>p. Returns True)\<rparr>"

definition unreadable_world :: "string \<Rightarrow> world" where
  "unreadable_world reply = (sample_world reply)\<lparr>imread := (\<lambda>p. Returns None)\<rparr>"

definition unwritable_world :: "string \<Rightarrow> world" where
  "unwritable_world reply = (sample_world reply)\<lparr>imwrite := (\<lambda>p. Returns False)\<rparr>"

definition two_line_reply :: string where
  "two_line_reply = ''  Tomato : Late_blight'' @ [CHR 0x0D, CHR 0x0A] @ ''It is serious.''"

definition offline_world :: "string \<Rightarrow> world" where
  "offline_world msg = (sample_world [])\<lparr>generate_content := (\<lambda>p. Raises msg)\<rparr>"

definition no_plant_sentence :: string where
  "no_plant_sentence =
     ''This image contains no plants. Therefore, I cannot provide a diagnosis.''"

section \<open>Facts about the text primitives\<close>

lemma startswith_iff_prefix: "startswith s w \<longleftrightarrow> prefix w s"
  by (induction s w rule: startswith.induct) auto

lemma contains_iff_sublist: "contains w s \<longleftrightarrow> sublist w s"
  by (induction s) (auto simp: startswith_iff_prefix sublist_Cons_right)

lemma contains_single: "contains [c] s \<longleftrightarrow> c \<in> set s"
  by (induction s) auto

lemma dropWhile_upto_sep: "sep \<notin> set a \<Longrightarrow> dropWhile (\<lambda>c. c \<noteq> sep) (a @ sep # b) = sep # b"
  by (induction a) auto

lemma takeWhile_upto_sep: "sep \<notin> set a \<Longrightarrow> takeWhile (\<lambda>c. c \<noteq> sep) (a @ sep # b) = a"
  by (induction a) auto

lemma split1_at_first: "sep \<notin> set a \<Longrightarrow> split1 sep (a @ sep # b) = [a, b]"
  by (simp add: split1_def dropWhile_upto_sep takeWhile_upto_sep)

lemma rev_drop_take_while: "rev (dropWhile P xs) @ rev (takeWhile P xs) = rev xs"
  by (metis rev_append takeWhile_dropWhile_id)

lemma strip_decomposition:
  "\<exists>l r. s = l @ strip s @ r \<and> list_all isspace l \<and> list_all isspace r"
proof -
  let ?m = "dropWhile isspace s"
  have 1: "s = takeWhile isspace s @ ?m" by simp
  have 2: "?m = strip s @ rev (takeWhile isspace (rev ?m))"
    using rev_drop_take_while [of isspace "rev ?m"] by (simp add: strip_def)
  have "list_all isspace (takeWhile isspace s)"
    by (simp add: list_all_iff) (metis set_takeWhileD)
  moreover have "list_all isspace (rev (takeWhile isspace (rev ?m)))"
    by (simp add: list_all_iff) (metis set_takeWhileD)
  ultimately show ?thesis using 1 2 by metis
qed

lemma strip_no_trailing_space: "strip s \<noteq> [] \<Longrightarrow> \<not> isspace (last (strip s))"
proof -
  assume ne: "strip s \<noteq> []"
  let ?d = "dropWhile isspace (rev (dropWhile isspace s))"
  from ne have "?d \<noteq> []" by (simp add: strip_def)
  then have "\<not> isspace (hd ?d)" by (rule hd_dropWhile)
  moreover have "last (strip s) = hd ?d" using \<open>?d \<noteq> []\<close> by (simp add: strip_def last_rev)
  ultimately show ?thesis by simp
qed

lemma strip_no_leading_space: "strip s \<noteq> [] \<Longrightarrow> \<not> isspace (hd (strip s))"
proof -
  assume ne: "strip s \<noteq> []"
  let ?m = "dropWhile isspace s"
  let ?d = "dropWhile isspace (rev ?m)"
  from ne have d: "?d \<noteq> []" by (simp add: strip_def)
  have m: "?m \<noteq> []"
  proof
    assume "?m = []"
    then have "?d = []" by (metis dropWhile.simps(1) rev.simps(1))
    with d show False by simp
  qed
  then have h: "\<not> isspace (hd ?m)" by (rule hd_dropWhile)
  have "?d = rev (strip s)" by (simp add: strip_def)
  obtain l where l: "?m = strip s @ l"
    by (metis append_take_drop_id dropWhile_eq_drop rev_append rev_rev_ident strip_def)
  with ne have "hd ?m = hd (strip s)" by simp
  with h show ?thesis by simp
qed

lemma is_linebreak_isspace: "is_linebreak c \<Longrightarrow> isspace c"
  by (auto simp: is_linebreak_def isspace_def Let_def)

lemma splitlines_first:
  assumes "s \<noteq> []"
  shows "\<exists>ls. splitlines s = takeWhile (\<lambda>x. \<not> is_linebreak x) s # ls"
proof -
  from assms obtain c cs where s: "s = c # cs" by (cases s) auto
  show ?thesis unfolding s
    by (cases "dropWhile (\<lambda>x. \<not> is_linebreak x) (c # cs)")
       (simp_all only: splitlines.simps Let_def list.case, blast+)
qed

text \<open>Lower-casing: what it does to letters, and that it commutes with trimming.\<close>

lemma lower_upper_case_letters:
  "lower ''ABCDEFGHIJKLMNOPQRSTUVWXYZ'' = ''abcdefghijklmnopqrstuvwxyz''"
  by code_simp

lemma upper_case_letters_by_code:
  "map char_of [65..<91::nat] = ''ABCDEFGHIJKLMNOPQRSTUVWXYZ''"
  by code_simp

lemma upper_case_letter_iff:
  "c \<in> set ''ABCDEFGHIJKLMNOPQRSTUVWXYZ'' \<longleftrightarrow>
     65 \<le> (of_char c :: nat) \<and> (of_char c :: nat) \<le> 90"
proof
  assume "c \<in> set ''ABCDEFGHIJKLMNOPQRSTUVWXYZ''"
  then have "c \<in> set (map char_of [65..<91::nat])"
    by (simp only: upper_case_letters_by_code)
  then obtain n :: nat where n: "65 \<le> n" "n < 91" "c = char_of n" by auto
  then have "(of_char c :: nat) = n" by simp
  with n show "65 \<le> (of_char c :: nat) \<and> (of_char c :: nat) \<le> 90" by simp
next
  assume a: "65 \<le> (of_char c :: nat) \<and> (of_char c :: nat) \<le> 90"
  have "c = char_of (of_char c :: nat)" by simp
  moreover from a have "(of_char c :: nat) \<in> {65..<91}" by auto
  then have "(of_char c :: nat) \<in> set [65..<91]" by (simp only: set_upt)
  ultimately have "c \<in> set (map char_of [65..<91::nat])"
    by (metis image_eqI set_map)
  then show "c \<in> set ''ABCDEFGHIJKLMNOPQRSTUVWXYZ''"
    by (simp only: upper_case_letters_by_code)
qed

lemma lower_keeps_other_ascii:
  assumes "(of_char c :: nat) < 128" and "c \<notin> set ''ABCDEFGHIJKLMNOPQRSTUVWXYZ''"
  shows "lower_char c = c"
proof -
  from assms(2) have "\<not> (65 \<le> (of_char c :: nat) \<and> (of_char c :: nat) \<le> 90)"
    using upper_case_letter_iff by blast
  with assms(1) show ?thesis by (auto simp: lower_char_def Let_def)
qed

lemma of_char_lower_char:
  "(of_char (lower_char c) :: nat) =
     (if (65 \<le> (of_char c :: nat) \<and> (of_char c :: nat) \<le> 90) \<or>
         (192 \<le> (of_char c :: nat) \<and> (of_char c :: nat) \<le> 222 \<and> (of_char c :: nat) \<noteq> 215)
      then of_char c + 32 else of_char c)"
  by (simp add: lower_char_def Let_def)

lemma isspace_lower_char: "isspace (lower_char c) = isspace c"
  unfolding isspace_def Let_def of_char_lower_char by auto

lemma lower_char_idem: "lower_char (lower_char c) = lower_char c"
proof -
  have "(of_char (lower_char (lower_char c)) :: nat) = of_char (lower_char c)"
    unfolding of_char_lower_char [of "lower_char c"] unfolding of_char_lower_char [of c]
    by auto
  then show ?thesis by simp
qed

lemma lower_idem: "lower (lower s) = lower s"
  by (simp add: lower_def lower_char_idem)

lemma lower_dropWhile: "lower (dropWhile isspace s) = dropWhile isspace (lower s)"
  by (induction s) (simp_all add: lower_def isspace_lower_char)

lemma lower_strip: "lower (strip s) = strip (lower s)"
proof -
  have r: "\<And>t. lower (rev t) = rev (lower t)" by (simp add: lower_def rev_map)
  show ?thesis by (simp add: strip_def r lower_dropWhile)
qed

section \<open>The result interpreter: splitting, severity, confidence\<close>

lemma get_disease_info_colon:
  assumes "CHR '':'' \<notin> set a"
  shows "get_disease_info ready (a @ CHR '':'' # b) =
    \<lparr>plant_type = strip a, disease_name = strip b,
     severity_level =
       (if lower (strip b) = ''healthy'' then ''Healthy''
        else if list_ex (\<lambda>word. contains word (lower (strip b)))
                  [''blight'', ''rot'', ''wilt'', ''canker''] then ''High''
        else if list_ex (\<lambda>word. contains word (lower (strip b)))
                  [''spot'', ''rust'', ''mildew''] then ''Medium''
        else ''Low to Medium''),
     confidence = (if ready then ''High'' else ''Low'')\<rparr>"
proof -
  have "contains '':'' (a @ CHR '':'' # b)" by (simp add: contains_single)
  moreover have "split1 (CHR '':'') (a @ CHR '':'' # b) = [a, b]"
    using assms by (rule split1_at_first)
  ultimately show ?thesis
    by (simp add: get_disease_info_def Let_def)
qed

lemma get_disease_info_no_colon:
  assumes "CHR '':'' \<notin> set s"
  shows "get_disease_info ready s =
    \<lparr>plant_type = ''Unknown'', disease_name = s,
     severity_level = ''Unknown'', confidence = ''Low''\<rparr>"
  using assms by (simp add: get_disease_info_def contains_single)

lemma first_colon_split:
  assumes "CHR '':'' \<in> set s"
  shows "\<exists>a b. s = a @ CHR '':'' # b \<and> CHR '':'' \<notin> set a"
  using assms by (metis split_list_first)

lemma severity_ignores_case:
  assumes "CHR '':'' \<notin> set a" and "lower b' = lower b"
  shows "severity_level (get_disease_info ready (a @ CHR '':'' # b')) =
         severity_level (get_disease_info ready (a @ CHR '':'' # b))"
proof -
  from assms(2) have "lower (strip b') = lower (strip b)" by (simp add: lower_strip)
  with assms(1) show ?thesis by (simp add: get_disease_info_colon)
qed

text \<open>
  Claim C2. For a classification with a colon, the severity level follows the disease
  part (the text after the first colon, trimmed and lower-cased) in a fixed order of
  priority: equal to \<open>healthy\<close> gives Healthy; otherwise a keyword among blight, rot,
  wilt, canker anywhere in it gives High; otherwise a keyword among spot, rust, mildew
  gives Medium; otherwise Low to Medium. A disease with keywords of both groups is High.
  Lower-casing is characterised by \<open>lower_upper_case_letters\<close>,
  \<open>lower_keeps_other_ascii\<close> and \<open>lower_idem\<close>, and \<open>severity_ignores_case\<close> says
  that the letter case of the disease part does not matter.
\<close>

theorem severity_priority:
  assumes "CHR '':'' \<notin> set a"
  shows "severity_level (get_disease_info ready (a @ CHR '':'' # b)) =
    (if lower (strip b) = ''healthy'' then ''Healthy''
     else if sublist ''blight'' (lower (strip b)) \<or> sublist ''rot'' (lower (strip b)) \<or>
             sublist ''wilt'' (lower (strip b)) \<or> sublist ''canker'' (lower (strip b))
          then ''High''
     else if sublist ''spot'' (lower (strip b)) \<or> sublist ''rust'' (lower (strip b)) \<or>
             sublist ''mildew'' (lower (strip b))
          then ''Medium''
     else ''Low to Medium'')"
  using assms by (simp add: get_disease_info_colon contains_iff_sublist)

theorem severity_priority_witness:
  "severity_level (get_disease_info True ''Tomato : HEALTHY'') = ''Healthy'' \<and>
   severity_level (get_disease_info True ''Tomato : Leaf SPOT Blight'') = ''High'' \<and>
   severity_level (get_disease_info False ''Grape : Powdery MILDEW'') = ''Medium'' \<and>
   severity_level (get_disease_info True ''Wheat : Karnal_Bunt'') = ''Low to Medium''"
proof -
  have h1: "CHR '':'' \<notin> set ''Tomato ''" by simp
  have h3: "CHR '':'' \<notin> set ''Grape ''" by simp
  have h4: "CHR '':'' \<notin> set ''Wheat ''" by simp
  have v1: "(if lower (strip '' HEALTHY'') = ''healthy'' then ''Healthy''
     else if sublist ''blight'' (lower (strip '' HEALTHY'')) \<or>
             sublist ''rot'' (lower (strip '' HEALTHY'')) \<or>
             sublist ''wilt'' (lower (strip '' HEALTHY'')) \<or>
             sublist ''canker'' (lower (strip '' HEALTHY''))
          then ''High''
     else if sublist ''spot'' (lower (strip '' HEALTHY'')) \<or>
             sublist ''rust'' (lower (strip '' HEALTHY'')) \<or>
             sublist ''mildew'' (lower (strip '' HEALTHY''))
          then ''Medium''
     else ''Low to Medium'') = ''Healthy''"
    unfolding contains_iff_sublist [symmetric] by code_simp
  have v2: "(if lower (strip '' Leaf SPOT Blight'') = ''healthy'' then ''Healthy''
     else if sublist ''blight'' (lower (strip '' Leaf SPOT Blight'')) \<or>
             sublist ''rot'' (lower (strip '' Leaf SPOT Blight'')) \<or>
             sublist ''wilt'' (lower (strip '' Leaf SPOT Blight'')) \<or>
             sublist ''canker'' (lower (strip '' Leaf SPOT Blight''))
          then ''High''
     else if sublist ''spot'' (lower (strip '' Leaf SPOT Blight'')) \<or>
             sublist ''rust'' (lower (strip '' Leaf SPOT Blight'')) \<or>
             sublist ''mildew'' (lower (strip '' Leaf SPOT Blight''))
          then ''Medium''
     else ''Low to Medium'') = ''High''"
    unfolding contains_iff_sublist [symmetric] by code_simp
  have v3: "(if lower (strip '' Powdery MILDEW'') = ''healthy'' then ''Healthy''
     else if sublist ''blight'' (lower (strip '' Powdery MILDEW'')) \<or>
             sublist ''rot'' (lower (strip '' Powdery MILDEW'')) \<or>
             sublist ''wilt'' (lower (strip '' Powdery MILDEW'')) \<or>
             sublist ''canker'' (lower (strip '' Powdery MILDEW''))
          then ''High''
     else if sublist ''spot'' (lower (strip '' Powdery MILDEW'')) \<or>
             sublist ''rust'' (lower (strip '' Powdery MILDEW'')) \<or>
             sublist ''mildew'' (lower (strip '' Powdery MILDEW''))
          then ''Medium''
     else ''Low to Medium'') = ''Medium''"
    unfolding contains_iff_sublist [symmetric] by code_simp
  have v4: "(if lower (strip '' Karnal_Bunt'') = ''healthy'' then ''Healthy''
     else if sublist ''blight'' (lower (strip '' Karnal_Bunt'')) \<or>
             sublist ''rot'' (lower (strip '' Karnal_Bunt'')) \<or>
             sublist ''wilt'' (lower (strip '' Karnal_Bunt'')) \<or>
             sublist ''canker'' (lower (strip '' Karnal_Bunt''))
          then ''High''
     else if sublist ''spot'' (lower (strip '' Karnal_Bunt'')) \<or>
             sublist ''rust'' (lower (strip '' Karnal_Bunt'')) \<or>
             sublist ''mildew'' (lower (strip '' Karnal_Bunt''))
          then ''Medium''
     else ''Low to Medium'') = ''Low to Medium''"
    unfolding contains_iff_sublist [symmetric] by code_simp
  show ?thesis
    using trans [OF severity_priority [OF h1, of True "'' HEALTHY''"] v1]
          trans [OF severity_priority [OF h1, of True "'' Leaf SPOT Blight''"] v2]
          trans [OF severity_priority [OF h3, of False "'' Powdery MILDEW''"] v3]
          trans [OF severity_priority [OF h4, of True "'' Karnal_Bunt''"] v4]
    by simp
qed

text \<open>
  Claim C4, as stated: for every classification the confidence is High exactly when the
  classifier-configured flag is set. It fails for a classification without a colon: with
  the flag set, the interpreter still answers Low for \<open>unknown\<close>.
\<close>

theorem confidence_without_colon_counterexample:
  "\<not> (confidence (get_disease_info True ''unknown'') = ''High'')"
  by (simp add: get_disease_info_no_colon)

text \<open>
  Claim C4, amended: the confidence is High exactly when the flag is set and the
  classification contains a colon; it is Low in every other case, so for a classification
  without a colon it is Low whatever the flag.
\<close>

theorem confidence_by_flag_and_colon:
  "confidence (get_disease_info ready s) =
     (if ready \<and> CHR '':'' \<in> set s then ''High'' else ''Low'')"
proof (cases "CHR '':'' \<in> set s")
  case True
  then obtain a b where "s = a @ CHR '':'' # b" "CHR '':'' \<notin> set a"
    using first_colon_split by blast
  then show ?thesis by (simp add: get_disease_info_colon)
next
  case False
  then show ?thesis by (simp add: get_disease_info_no_colon)
qed

theorem confidence_by_flag_and_colon_witness:
  "confidence (get_disease_info True ''Rice : Healthy'') = ''High'' \<and>
   confidence (get_disease_info False ''Rice : Healthy'') = ''Low'' \<and>
   confidence (get_disease_info True no_plant_sentence) = ''Low''"
  using confidence_by_flag_and_colon [of True "''Rice : Healthy''"]
        confidence_by_flag_and_colon [of False "''Rice : Healthy''"]
        confidence_by_flag_and_colon [of True no_plant_sentence]
  by (simp add: no_plant_sentence_def)

text \<open>
  Claim C5. A classification with a colon is split at its first colon; the plant type is
  the trimmed text before it and the disease name the trimmed text after it (which may
  hold further colons). A classification without a colon gives the plant type Unknown,
  the classification itself as disease name, severity Unknown and confidence Low.
  What trimming means is given by \<open>strip_decomposition\<close>, \<open>strip_no_leading_space\<close>
  and \<open>strip_no_trailing_space\<close>.
\<close>

theorem split_and_trim:
  "(CHR '':'' \<notin> set a \<longrightarrow>
      plant_type (get_disease_info ready (a @ CHR '':'' # b)) = strip a \<and>
      disease_name (get_disease_info ready (a @ CHR '':'' # b)) = strip b) \<and>
   (CHR '':'' \<notin> set s \<longrightarrow>
      get_disease_info ready s =
        \<lparr>plant_type = ''Unknown'', disease_name = s,
         severity_level = ''Unknown'', confidence = ''Low''\<rparr>)"
  by (simp add: get_disease_info_colon get_disease_info_no_colon)

theorem split_and_trim_witness:
  "plant_type (get_disease_info True ''  Tomato : Late_blight: stem '') = ''Tomato'' \<and>
   disease_name (get_disease_info True ''  Tomato : Late_blight: stem '') = ''Late_blight: stem'' \<and>
   get_disease_info True ''unknown'' =
     \<lparr>plant_type = ''Unknown'', disease_name = ''unknown'',
      severity_level = ''Unknown'', confidence = ''Low''\<rparr>"
proof -
  have a: "CHR '':'' \<notin> set ''  Tomato ''" by simp
  have s: "CHR '':'' \<notin> set ''unknown''" by simp
  have t1: "strip ''  Tomato '' = ''Tomato''" by code_simp
  have t2: "strip '' Late_blight: stem '' = ''Late_blight: stem''" by code_simp
  from split_and_trim [of "''  Tomato ''" True "'' Late_blight: stem ''" "''unknown''"] a s t1 t2
  show ?thesis by simp
qed

section \<open>The recommendation generator\<close>

text \<open>
  Claim C6. The recommendations are a function of the disease name alone, defined for
  every string: on the lower-cased name, equal to \<open>healthy\<close> gives the healthy list;
  otherwise \<open>blight\<close> anywhere in it gives the blight list; otherwise \<open>spot\<close> or
  \<open>rust\<close> the spot and rust list; otherwise \<open>wilt\<close> the wilt list; otherwise the
  fallback list, which is also the answer for the empty name.
\<close>

theorem get_recommendations_priority:
  "get_recommendations info =
     (if lower (disease_name info) = ''healthy'' then healthy_advice
      else if sublist ''blight'' (lower (disease_name info)) then blight_advice
      else if sublist ''spot'' (lower (disease_name info)) \<or>
              sublist ''rust'' (lower (disease_name info)) then spot_rust_advice
      else if sublist ''wilt'' (lower (disease_name info)) then wilt_advice
      else fallback_advice)"
  by (simp add: get_recommendations_def Let_def contains_iff_sublist)

theorem get_recommendations_priority_witness:
  "get_recommendations \<lparr>plant_type = ''Unknown'', disease_name = [],
      severity_level = ''Unknown'', confidence = ''Low''\<rparr> = fallback_advice \<and>
   get_recommendations \<lparr>plant_type = ''Bean'', disease_name = ''Rust and WILT and Blight'',
      severity_level = ''High'', confidence = ''High''\<rparr> = blight_advice"
proof -
  have l: "lower ''Rust and WILT and Blight'' = ''rust and wilt and blight''" by code_simp
  have b: "sublist ''blight'' ''rust and wilt and blight''" by code_simp
  have e: "lower [] = []" by (simp add: lower_def)
  show ?thesis
    using get_recommendations_priority [of "\<lparr>plant_type = ''Unknown'', disease_name = [],
              severity_level = ''Unknown'', confidence = ''Low''\<rparr>"]
          get_recommendations_priority [of "\<lparr>plant_type = ''Bean'',
              disease_name = ''Rust and WILT and Blight'',
              severity_level = ''High'', confidence = ''High''\<rparr>"]
          l b e
    by simp
qed

section \<open>The classifier client\<close>

lemma first_line_nonempty:
  assumes "strip t \<noteq> []"
  shows "takeWhile (\<lambda>x. \<not> is_linebreak x) (strip t) \<noteq> []"
proof -
  from assms obtain c cs where s: "strip t = c # cs" by (cases "strip t") auto
  from assms have "\<not> isspace (hd (strip t))" by (rule strip_no_leading_space)
  with s have "\<not> is_linebreak c" using is_linebreak_isspace by auto
  with s show ?thesis by simp
qed

lemma classify_reply:
  assumes "ready" "image_open w p = Returns u" "generate_content w p = Returns (Some t)"
  shows "fst (classify_with_gemini ready w p) =
           (if strip t = [] then ''unknown''
            else takeWhile (\<lambda>x. \<not> is_linebreak x) (strip t))"
proof (cases "strip t = []")
  case True
  with assms show ?thesis by (simp add: classify_with_gemini_def)
next
  case False
  then obtain ls where "splitlines (strip t) = takeWhile (\<lambda>x. \<not> is_linebreak x) (strip t) # ls"
    using splitlines_first by blast
  with assms False show ?thesis by (simp add: classify_with_gemini_def)
qed

lemma classify_nonempty: "fst (classify_with_gemini ready w p) \<noteq> []"
proof (cases "\<exists>u t. ready \<and> image_open w p = Returns u \<and> generate_content w p = Returns (Some t)")
  case True
  then obtain u t where h: "ready" "image_open w p = Returns u"
      "generate_content w p = Returns (Some t)" by blast
  show ?thesis unfolding classify_reply [OF h] by (simp add: first_line_nonempty)
next
  case False
  then have "fst (classify_with_gemini ready w p) = ''unknown''"
    by (auto simp: classify_with_gemini_def Let_def split: outcome.splits option.splits list.splits)
  then show ?thesis by simp
qed

text \<open>
  Claim C3. The classifier client always returns a non-empty string, and every exception
  is a value of the model, so none escapes. When the classifier is not configured the
  result is \<open>unknown\<close> and no external call is made. When opening the image or calling
  the model raises, or the reply has no text, the result is \<open>unknown\<close>. Otherwise
  the result is the first line of the trimmed reply; a reply that is empty after trimming
  has no first line, the indexing raises, and the result is \<open>unknown\<close> as well.
\<close>

theorem classify_with_gemini_contract:
  "fst (classify_with_gemini ready w p) \<noteq> [] \<and>
   (\<not> ready \<longrightarrow> classify_with_gemini ready w p = (''unknown'', [])) \<and>
   (image_open w p = Raises e \<longrightarrow> fst (classify_with_gemini ready w p) = ''unknown'') \<and>
   (generate_content w p = Raises e \<longrightarrow> fst (classify_with_gemini ready w p) = ''unknown'') \<and>
   (generate_content w p = Returns None \<longrightarrow> fst (classify_with_gemini ready w p) = ''unknown'') \<and>
   (ready \<and> image_open w p = Returns u \<and> generate_content w p = Returns (Some t) \<longrightarrow>
      fst (classify_with_gemini ready w p) =
        (if strip t = [] then ''unknown''
         else takeWhile (\<lambda>x. \<not> is_linebreak x) (strip t)))"
proof (intro conjI impI)
  show "fst (classify_with_gemini ready w p) \<noteq> []" by (rule classify_nonempty)
next
  assume "\<not> ready"
  then show "classify_with_gemini ready w p = (''unknown'', [])"
    by (simp add: classify_with_gemini_def)
next
  assume "image_open w p = Raises e"
  then show "fst (classify_with_gemini ready w p) = ''unknown''"
    by (simp add: classify_with_gemini_def)
next
  assume "generate_content w p = Raises e"
  then show "fst (classify_with_gemini ready w p) = ''unknown''"
    by (simp add: classify_with_gemini_def Let_def split: outcome.splits)
next
  assume "generate_content w p = Returns None"
  then show "fst (classify_with_gemini ready w p) = ''unknown''"
    by (simp add: classify_with_gemini_def Let_def split: outcome.splits)
next
  assume "ready \<and> image_open w p = Returns u \<and> generate_content w p = Returns (Some t)"
  then show "fst (classify_with_gemini ready w p) =
        (if strip t = [] then ''unknown''
         else takeWhile (\<lambda>x. \<not> is_linebreak x) (strip t))"
    using classify_reply by blast
qed

theorem classify_with_gemini_contract_witness:
  "classify_with_gemini False (sample_world two_line_reply) ''uploads/a.jpg'' = (''unknown'', []) \<and>
   fst (classify_with_gemini True (offline_world ''timeout'') ''uploads/a.jpg'') = ''unknown'' \<and>
   fst (classify_with_gemini True (sample_world two_line_reply) ''uploads/a.jpg'') =
     ''Tomato : Late_blight'' \<and>
   fst (classify_with_gemini True (sample_world ''   '') ''uploads/a.jpg'') = ''unknown''"
proof -
  have s1: "strip two_line_reply = ''Tomato : Late_blight'' @ [CHR 0x0D, CHR 0x0A] @ ''It is serious.''"
    by code_simp
  have s2: "takeWhile (\<lambda>x. \<not> is_linebreak x) (''Tomato : Late_blight'' @ [CHR 0x0D, CHR 0x0A] @ ''It is serious.'') = ''Tomato : Late_blight''"
    by code_simp
  have s3: "strip ''   '' = []" by code_simp
  show ?thesis
    using classify_with_gemini_contract [of False "sample_world two_line_reply" "''uploads/a.jpg''"]
          classify_with_gemini_contract [of True "offline_world ''timeout''" "''uploads/a.jpg''" "''timeout''"]
          classify_with_gemini_contract [of True "sample_world two_line_reply" "''uploads/a.jpg''" _ "()" two_line_reply]
          classify_with_gemini_contract [of True "sample_world ''   ''" "''uploads/a.jpg''" _ "()" "''   ''"]
          s1 s2 s3
    by (simp add: sample_world_def offline_world_def)
qed

section \<open>The analyze route\<close>

text \<open>
  An upload is accepted when the \<open>file\<close> field is present with a non-empty file name,
  saving it does not raise, and the saved file exists. For an accepted upload the route
  takes one of two branches, by the classification.
\<close>

lemma analyze_no_plant:
  assumes "files req ''file'' = Some f" and "filename f \<noteq> []"
    and "file_save w (filepath w f) = Returns u" and "path_exists w (filepath w f)"
    and "fst (classify_with_gemini ready w (filepath w f)) = label"
    and "contains ''no plant'' (lower label) \<or>
         contains ''cannot provide a diagnosis'' (lower label)"
  shows "analyze ready w req =
           (200, if wants_json req
                 then JsonBody (no_plant_json label (get_disease_info ready label))
                 else HtmlBody (NoPlantCard label
                        (no_plant_json label (get_disease_info ready label))))"
proof -
  have "label \<noteq> []" using assms(5) classify_nonempty by blast
  with assms show ?thesis
    by (simp add: analyze_def file_truthy_def Let_def)
qed

lemma analyze_plant:
  assumes "files req ''file'' = Some f" and "filename f \<noteq> []"
    and "file_save w (filepath w f) = Returns u" and "path_exists w (filepath w f)"
    and "fst (classify_with_gemini ready w (filepath w f)) = label"
    and "\<not> contains ''no plant'' (lower label)"
    and "\<not> contains ''cannot provide a diagnosis'' (lower label)"
    and "annotate w (filepath w f) (unique_filename w f) label = (img, detections)"
  shows "fst (analyze ready w req) = 200 \<and>
         \<not> is_json_body (snd (analyze ready w req)) \<and>
         document (snd (analyze ready w req)) =
           success_json label detections img (get_disease_info ready label)"
proof -
  have "label \<noteq> []" using assms(5) classify_nonempty by blast
  with assms show ?thesis
    by (simp add: analyze_def file_truthy_def Let_def split: prod.splits)
qed

lemma annotate_failure:
  assumes "import_cv2 w = Raises e \<or> imread w path = Raises e \<or> imread w path = Returns None \<or>
           draw_label w label = Raises e \<or>
           imwrite w (path_join UPLOAD_FOLDER (''result_'' @ name)) = Raises e"
  shows "annotate w path name label = (None, [])"
  using assms
  by (auto simp: annotate_def Let_def split: outcome.splits option.splits prod.splits)

lemma no_plant_sentence_signals: "contains ''no plant'' (lower no_plant_sentence)"
  by code_simp

text \<open>
  Claim C7. When the classification of an accepted upload is exactly the sentence
  \<open>This image contains no plants. Therefore, I cannot provide a diagnosis.\<close>, the
  response document has the status \<open>no_plant_detected\<close>, an empty detection list and
  \<open>null\<close> as annotated image, in the JSON body and in the HTML fragment alike.
\<close>

theorem no_plant_sentence_document:
  assumes "files req ''file'' = Some f" and "filename f \<noteq> []"
    and "file_save w (filepath w f) = Returns u" and "path_exists w (filepath w f)"
    and "fst (classify_with_gemini ready w (filepath w f)) =
           ''This image contains no plants. Therefore, I cannot provide a diagnosis.''"
  shows "fst (analyze ready w req) = 200 \<and>
         dict_get (document (snd (analyze ready w req))) ''status'' =
           Some (JStr ''no_plant_detected'') \<and>
         dict_get (document (snd (analyze ready w req))) ''detection'' = Some (JList []) \<and>
         dict_get (document (snd (analyze ready w req))) ''annotated_image'' = Some JNull"
proof -
  have l: "fst (classify_with_gemini ready w (filepath w f)) = no_plant_sentence"
    using assms(5) by (simp add: no_plant_sentence_def)
  have "contains ''no plant'' (lower no_plant_sentence) \<or>
        contains ''cannot provide a diagnosis'' (lower no_plant_sentence)"
    using no_plant_sentence_signals by simp
  from analyze_no_plant [OF assms(1-4) l this]
  show ?thesis by (simp add: no_plant_json_def)
qed

theorem no_plant_sentence_document_witness:
  "fst (analyze True (sample_world no_plant_sentence) html_request) = 200 \<and>
   dict_get (document (snd (analyze True (sample_world no_plant_sentence) html_request)))
     ''status'' = Some (JStr ''no_plant_detected'') \<and>
   dict_get (document (snd (analyze True (sample_world no_plant_sentence) html_request)))
     ''detection'' = Some (JList []) \<and>
   dict_get (document (snd (analyze True (sample_world no_plant_sentence) html_request)))
     ''annotated_image'' = Some JNull"
proof -
  let ?w = "sample_world no_plant_sentence"
  have 1: "files html_request ''file'' = Some sample_upload"
    by (simp add: html_request_def)
  have 2: "filename sample_upload \<noteq> []" by (simp add: sample_upload_def)
  have 3: "file_save ?w (filepath ?w sample_upload) = Returns ()"
    by (simp add: sample_world_def)
  have 4: "path_exists ?w (filepath ?w sample_upload)" by (simp add: sample_world_def)
  have 5: "fst (classify_with_gemini True ?w (filepath ?w sample_upload)) =
             ''This image contains no plants. Therefore, I cannot provide a diagnosis.''"
    by code_simp
  from no_plant_sentence_document [OF 1 2 3 4 5] show ?thesis .
qed

text \<open>
  Claim C8. A request without a \<open>file\<close> field is answered with status 400 and the
  body \<open>{"error": "No file uploaded"}\<close>; a request whose file has an empty name is
  answered with status 400 and the body
  \<open>{"error": "Empty filename or no file selected"}\<close>.
\<close>

theorem upload_validation:
  "(files req ''file'' = None \<longrightarrow>
      analyze ready w req = (400, JsonBody (JObj [(''error'', JStr ''No file uploaded'')]))) \<and>
   (files req ''file'' = Some f \<and> filename f = [] \<longrightarrow>
      analyze ready w req =
        (400, JsonBody (JObj [(''error'', JStr ''Empty filename or no file selected'')])))"
  by (simp add: analyze_def file_truthy_def)

theorem upload_validation_witness:
  "analyze True (sample_world ''Rice : Healthy'') no_file_request =
     (400, JsonBody (JObj [(''error'', JStr ''No file uploaded'')])) \<and>
   analyze True (sample_world ''Rice : Healthy'') empty_name_request =
     (400, JsonBody (JObj [(''error'', JStr ''Empty filename or no file selected'')]))"
  using upload_validation [where req = no_file_request and ready = True
          and w = "sample_world ''Rice : Healthy''"]
        upload_validation [where req = empty_name_request and ready = True
          and w = "sample_world ''Rice : Healthy''"
          and f = "\<lparr>filename = [], content_type = ''application/octet-stream''\<rparr>"]
  by (simp add: no_file_request_def empty_name_request_def)

text \<open>
  When a step of the annotation raises, or the image reads as \<open>None\<close>, the request is
  still answered with status 200 and the success document, in which the annotated image
  is \<open>null\<close>, the detection list is empty, and the analysis and the recommendations
  are those of the classification.
\<close>

lemma annotation_exception_keeps_success:
  assumes "files req ''file'' = Some f" and "filename f \<noteq> []"
    and "file_save w (filepath w f) = Returns u" and "path_exists w (filepath w f)"
    and "fst (classify_with_gemini ready w (filepath w f)) = label"
    and "\<not> sublist ''no plant'' (lower label)"
    and "\<not> sublist ''cannot provide a diagnosis'' (lower label)"
    and "import_cv2 w = Raises e \<or> imread w (filepath w f) = Raises e \<or>
         imread w (filepath w f) = Returns None \<or> draw_label w label = Raises e \<or>
         imwrite w (path_join UPLOAD_FOLDER (''result_'' @ unique_filename w f)) = Raises e"
  shows "fst (analyze ready w req) = 200 \<and>
         dict_get (document (snd (analyze ready w req))) ''status'' = Some (JStr ''success'') \<and>
         dict_get (document (snd (analyze ready w req))) ''annotated_image'' = Some JNull \<and>
         dict_get (document (snd (analyze ready w req))) ''detection'' = Some (JList []) \<and>
         dict_get (document (snd (analyze ready w req))) ''analysis'' =
           Some (info_json (get_disease_info ready label)) \<and>
         dict_get (document (snd (analyze ready w req))) ''recommendations'' =
           Some (JList (map JStr (get_recommendations (get_disease_info ready label))))"
proof -
  have a: "annotate w (filepath w f) (unique_filename w f) label = (None, [])"
    using assms(8) by (rule annotate_failure)
  from assms(6,7) have n: "\<not> contains ''no plant'' (lower label)"
      "\<not> contains ''cannot provide a diagnosis'' (lower label)"
    by (simp_all add: contains_iff_sublist)
  from analyze_plant [OF assms(1-5) n a]
  show ?thesis by (simp add: success_json_def)
qed

lemma annotation_exception_keeps_success_example:
  "fst (analyze True (unreadable_world ''Tomato : Late_blight'') html_request) = 200 \<and>
   dict_get (document (snd (analyze True (unreadable_world ''Tomato : Late_blight'')
     html_request))) ''status'' = Some (JStr ''success'') \<and>
   dict_get (document (snd (analyze True (unreadable_world ''Tomato : Late_blight'')
     html_request))) ''annotated_image'' = Some JNull \<and>
   dict_get (document (snd (analyze True (unreadable_world ''Tomato : Late_blight'')
     html_request))) ''detection'' = Some (JList [])"
proof -
  let ?w = "unreadable_world ''Tomato : Late_blight''"
  have 1: "files html_request ''file'' = Some sample_upload"
    by (simp add: html_request_def)
  have 2: "filename sample_upload \<noteq> []" by (simp add: sample_upload_def)
  have 3: "file_save ?w (filepath ?w sample_upload) = Returns ()"
    by (simp add: sample_world_def unreadable_world_def)
  have 4: "path_exists ?w (filepath ?w sample_upload)"
    by (simp add: sample_world_def unreadable_world_def)
  have 5: "fst (classify_with_gemini True ?w (filepath ?w sample_upload)) =
             ''Tomato : Late_blight''"
    by code_simp
  have 6: "\<not> sublist ''no plant'' (lower ''Tomato : Late_blight'')"
    unfolding contains_iff_sublist [symmetric] by code_simp
  have 7: "\<not> sublist ''cannot provide a diagnosis'' (lower ''Tomato : Late_blight'')"
    unfolding contains_iff_sublist [symmetric] by code_simp
  have 8: "import_cv2 ?w = Raises ''unused'' \<or> imread ?w (filepath ?w sample_upload) = Raises ''unused'' \<or>
         imread ?w (filepath ?w sample_upload) = Returns None \<or>
         draw_label ?w ''Tomato : Late_blight'' = Raises ''unused'' \<or>
         imwrite ?w (path_join UPLOAD_FOLDER (''result_'' @ unique_filename ?w sample_upload)) =
           Raises ''unused''"
    by (simp add: sample_world_def unreadable_world_def)
  from annotation_exception_keeps_success [OF 1 2 3 4 5 6 7 8] show ?thesis by blast
qed

lemma annotate_silent_write_failure:
  assumes "import_cv2 w = Returns ()" and "imread w path = Returns (Some (h, wd))"
    and "draw_label w label = Returns ()"
    and "imwrite w (path_join UPLOAD_FOLDER (''result_'' @ name)) = Returns written"
  shows "annotate w path name label =
           (Some (''/uploads/result_'' @ name),
            [JObj [(''bbox_xyxy'', JList [JNum 20, JNum 20, JNum (int wd - 20), JNum (int h - 20)]),
                   (''disease'', JStr label)]])"
  using assms by (simp add: annotate_def Let_def)

text \<open>
  Claim C9 asks that a failed annotation, whatever the reason, leaves the annotated image
  \<open>null\<close> and the detection list empty in the success document. The route does so
  when a step raises and when the image reads as \<open>None\<close>
  (\<open>annotation_exception_keeps_success\<close>). It does not when the annotated copy fails
  to be written and \<open>imwrite\<close> answers \<open>False\<close> instead of raising: the document
  then names an annotated image that was not written, and lists a detection.
\<close>

theorem silent_write_failure_keeps_annotation:
  assumes "files req ''file'' = Some f" and "filename f \<noteq> []"
    and "file_save w (filepath w f) = Returns u" and "path_exists w (filepath w f)"
    and "fst (classify_with_gemini ready w (filepath w f)) = label"
    and "\<not> sublist ''no plant'' (lower label)"
    and "\<not> sublist ''cannot provide a diagnosis'' (lower label)"
    and "import_cv2 w = Returns ()"
    and "imread w (filepath w f) = Returns (Some (h, wd))"
    and "draw_label w label = Returns ()"
    and "imwrite w (path_join UPLOAD_FOLDER (''result_'' @ unique_filename w f)) = Returns False"
  shows "fst (analyze ready w req) = 200 \<and>
         dict_get (document (snd (analyze ready w req))) ''status'' = Some (JStr ''success'') \<and>
         dict_get (document (snd (analyze ready w req))) ''annotated_image'' =
           Some (JStr (''/uploads/result_'' @ unique_filename w f)) \<and>
         dict_get (document (snd (analyze ready w req))) ''detection'' =
           Some (JList [JObj [(''bbox_xyxy'',
                                JList [JNum 20, JNum 20, JNum (int wd - 20), JNum (int h - 20)]),
                              (''disease'', JStr label)]])"
proof -
  note a = annotate_silent_write_failure [OF assms(8-11)]
  from assms(6,7) have n: "\<not> contains ''no plant'' (lower label)"
      "\<not> contains ''cannot provide a diagnosis'' (lower label)"
    by (simp_all add: contains_iff_sublist)
  from analyze_plant [OF assms(1-5) n a]
  show ?thesis by (simp add: success_json_def)
qed

theorem silent_write_failure_keeps_annotation_witness:
  "fst (analyze True (unwritable_world ''Tomato : Late_blight'') html_request) = 200 \<and>
   dict_get (document (snd (analyze True (unwritable_world ''Tomato : Late_blight'')
     html_request))) ''annotated_image'' =
     Some (JStr ''/uploads/result_0f8fad5b-d9cb-469f-a165-70867728950e.jpg'') \<and>
   dict_get (document (snd (analyze True (unwritable_world ''Tomato : Late_blight'')
     html_request))) ''detection'' =
     Some (JList [JObj [(''bbox_xyxy'', JList [JNum 20, JNum 20, JNum 620, JNum 460]),
                        (''disease'', JStr ''Tomato : Late_blight'')]])"
proof -
  let ?w = "unwritable_world ''Tomato : Late_blight''"
  have 1: "files html_request ''file'' = Some sample_upload"
    by (simp add: html_request_def)
  have 2: "filename sample_upload \<noteq> []" by (simp add: sample_upload_def)
  have 3: "file_save ?w (filepath ?w sample_upload) = Returns ()"
    by (simp add: sample_world_def unwritable_world_def)
  have 4: "path_exists ?w (filepath ?w sample_upload)"
    by (simp add: sample_world_def unwritable_world_def)
  have 5: "fst (classify_with_gemini True ?w (filepath ?w sample_upload)) =
             ''Tomato : Late_blight''"
    by code_simp
  have 6: "\<not> sublist ''no plant'' (lower ''Tomato : Late_blight'')"
    unfolding contains_iff_sublist [symmetric] by code_simp
  have 7: "\<not> sublist ''cannot provide a diagnosis'' (lower ''Tomato : Late_blight'')"
    unfolding contains_iff_sublist [symmetric] by code_simp
  have 8: "import_cv2 ?w = Returns ()" by (simp add: sample_world_def unwritable_world_def)
  have 9: "imread ?w (filepath ?w sample_upload) = Returns (Some (480, 640))"
    by (simp add: sample_world_def unwritable_world_def)
  have 10: "draw_label ?w ''Tomato : Late_blight'' = Returns ()"
    by (simp add: sample_world_def unwritable_world_def)
  have 11: "imwrite ?w (path_join UPLOAD_FOLDER (''result_'' @ unique_filename ?w sample_upload)) =
      Returns False"
    by (simp add: sample_world_def unwritable_world_def)
  have u: "unique_filename ?w sample_upload = ''0f8fad5b-d9cb-469f-a165-70867728950e.jpg''"
    by code_simp
  from silent_write_failure_keeps_annotation [OF 1 2 3 4 5 6 7 8 9 10 11] u
  show ?thesis by simp
qed

text \<open>
  Claim C10. The no-plant branch is taken by a substring test on the lower-cased
  classification: every classification of an accepted upload that contains \<open>no plant\<close>
  or \<open>cannot provide a diagnosis\<close> in any letter case, with or without a colon-separated
  label around it, gives the \<open>no_plant_detected\<close> document, which has no
  recommendations.
\<close>

theorem no_plant_substring_trigger:
  assumes "files req ''file'' = Some f" and "filename f \<noteq> []"
    and "file_save w (filepath w f) = Returns u" and "path_exists w (filepath w f)"
    and "fst (classify_with_gemini ready w (filepath w f)) = label"
    and "sublist ''no plant'' (lower label) \<or>
         sublist ''cannot provide a diagnosis'' (lower label)"
  shows "fst (analyze ready w req) = 200 \<and>
         document (snd (analyze ready w req)) =
           no_plant_json label (get_disease_info ready label) \<and>
         dict_get (document (snd (analyze ready w req))) ''status'' =
           Some (JStr ''no_plant_detected'') \<and>
         dict_get (document (snd (analyze ready w req))) ''message'' = Some (JStr label) \<and>
         dict_get (document (snd (analyze ready w req))) ''detection'' = Some (JList []) \<and>
         dict_get (document (snd (analyze ready w req))) ''annotated_image'' = Some JNull \<and>
         dict_get (document (snd (analyze ready w req))) ''recommendations'' = None"
proof -
  from assms(6) have "contains ''no plant'' (lower label) \<or>
      contains ''cannot provide a diagnosis'' (lower label)"
    by (simp add: contains_iff_sublist)
  from analyze_no_plant [OF assms(1-5) this]
  show ?thesis by (simp add: no_plant_json_def)
qed

theorem no_plant_substring_trigger_witness:
  "dict_get (document (snd (analyze True (sample_world ''Tomato : No Plant disease'')
     json_request))) ''status'' = Some (JStr ''no_plant_detected'') \<and>
   dict_get (document (snd (analyze True (sample_world ''Tomato : No Plant disease'')
     json_request))) ''message'' = Some (JStr ''Tomato : No Plant disease'')"
proof -
  let ?w = "sample_world ''Tomato : No Plant disease''"
  have 1: "files json_request ''file'' = Some sample_upload"
    by (simp add: json_request_def)
  have 2: "filename sample_upload \<noteq> []" by (simp add: sample_upload_def)
  have 3: "file_save ?w (filepath ?w sample_upload) = Returns ()"
    by (simp add: sample_world_def)
  have 4: "path_exists ?w (filepath ?w sample_upload)" by (simp add: sample_world_def)
  have 5: "fst (classify_with_gemini True ?w (filepath ?w sample_upload)) =
             ''Tomato : No Plant disease''"
    by code_simp
  have "contains ''no plant'' (lower ''Tomato : No Plant disease'')" by code_simp
  then have 6: "sublist ''no plant'' (lower ''Tomato : No Plant disease'') \<or>
      sublist ''cannot provide a diagnosis'' (lower ''Tomato : No Plant disease'')"
    by (simp add: contains_iff_sublist)
  from no_plant_substring_trigger [OF 1 2 3 4 5 6] show ?thesis by blast
qed

text \<open>
  Claim C1 asks that, for a plant classification, a request that prefers JSON gets a JSON
  body and any other request the HTML fragment, both with the same response document.
  The route reads the content preference in its no-plant branch only
  (\<open>analyze_no_plant\<close>). In the plant branch the body is the HTML result card for every
  accepted upload, whatever the request prefers; the card embeds the response document.
\<close>

theorem success_branch_ignores_json_preference:
  assumes "files req ''file'' = Some f" and "filename f \<noteq> []"
    and "file_save w (filepath w f) = Returns u" and "path_exists w (filepath w f)"
    and "fst (classify_with_gemini ready w (filepath w f)) = label"
    and "\<not> sublist ''no plant'' (lower label)"
    and "\<not> sublist ''cannot provide a diagnosis'' (lower label)"
  shows "fst (analyze ready w req) = 200 \<and>
         \<not> is_json_body (snd (analyze ready w req)) \<and>
         document (snd (analyze ready w req)) =
           success_json label
             (snd (annotate w (filepath w f) (unique_filename w f) label))
             (fst (annotate w (filepath w f) (unique_filename w f) label))
             (get_disease_info ready label)"
proof -
  from assms(6,7) have n: "\<not> contains ''no plant'' (lower label)"
      "\<not> contains ''cannot provide a diagnosis'' (lower label)"
    by (simp_all add: contains_iff_sublist)
  have a: "annotate w (filepath w f) (unique_filename w f) label =
      (fst (annotate w (filepath w f) (unique_filename w f) label),
       snd (annotate w (filepath w f) (unique_filename w f) label))"
    by simp
  from analyze_plant [OF assms(1-5) n a] show ?thesis .
qed

theorem success_branch_ignores_json_preference_witness:
  "wants_json json_request \<and>
   fst (analyze True (sample_world ''Tomato : healthy'') json_request) = 200 \<and>
   \<not> is_json_body (snd (analyze True (sample_world ''Tomato : healthy'') json_request))"
proof -
  let ?w = "sample_world ''Tomato : healthy''"
  have 0: "wants_json json_request" by code_simp
  have 1: "files json_request ''file'' = Some sample_upload"
    by (simp add: json_request_def)
  have 2: "filename sample_upload \<noteq> []" by (simp add: sample_upload_def)
  have 3: "file_save ?w (filepath ?w sample_upload) = Returns ()"
    by (simp add: sample_world_def)
  have 4: "path_exists ?w (filepath ?w sample_upload)" by (simp add: sample_world_def)
  have 5: "fst (classify_with_gemini True ?w (filepath ?w sample_upload)) =
             ''Tomato : healthy''"
    by code_simp
  have 6: "\<not> sublist ''no plant'' (lower ''Tomato : healthy'')"
    unfolding contains_iff_sublist [symmetric] by code_simp
  have 7: "\<not> sublist ''cannot provide a diagnosis'' (lower ''Tomato : healthy'')"
    unfolding contains_iff_sublist [symmetric] by code_simp
  from success_branch_ignores_json_preference [OF 1 2 3 4 5 6 7] 0
  show ?thesis by blast
qed

end
